theory Spec2Isabelle
  imports Complex_Main "HOL-Library.AList"
begin

section \<open>Python string operations used by the programs\<close>

text \<open>\<^verbatim>\<open>s.endswith(suf)\<close>.\<close>

definition endswith :: "string \<Rightarrow> string \<Rightarrow> bool" where
  "endswith s suf = (length suf \<le> length s \<and> drop (length s - length suf) s = suf)"

text \<open>\<^verbatim>\<open>s.split(sep)[0]\<close> for a one-character separator: the part of \<open>s\<close> before the
  first separator, or all of \<open>s\<close> when it has none.\<close>

definition split_first :: "char \<Rightarrow> string \<Rightarrow> string" where
  "split_first sep s = takeWhile (\<lambda>c. c \<noteq> sep) s"

text \<open>\<^verbatim>\<open>s.replace(old, new)\<close>: every non-overlapping occurrence of \<open>old\<close>, found from the
  left, is replaced. An empty \<open>old\<close> matches before every character and at the end.\<close>

function replace :: "string \<Rightarrow> string \<Rightarrow> string \<Rightarrow> string" where
  "replace old new [] = (if old = [] then new else [])"
| "replace old new (c # cs) =
     (if old = [] then new @ c # replace old new cs
      else if take (length old) (c # cs) = old
        then new @ replace old new (drop (length old) (c # cs))
      else c # replace old new cs)"
  by pat_completeness auto
termination
  by (relation "measure (\<lambda>(old, new, s). length s)") auto

section \<open>Price tables\<close>

text \<open>
  A pandas \<^verbatim>\<open>DataFrame\<close> as the price history delivers it: the row labels (the
  timestamps, here as day numbers), the numeric columns in their order, each a name with
  one cell per row, and the constant text column \<^verbatim>\<open>Ticker\<close> that
  \<^verbatim>\<open>download_ticker_data\<close> adds. A cell is a number or null (\<^verbatim>\<open>NaN\<close>, here
  \<open>None\<close>). Prices are floating-point numbers in the program; the model keeps their
  order and their sign, which is all the checks below read, and takes them as rationals.
  Column names are taken to be distinct, as in the tables of the provider.
\<close>

type_synonym cell = "rat option"

record DataFrame =
  df_index :: "int list"
  df_numeric :: "(string \<times> cell list) list"
  df_ticker :: "string option"

datatype py_error = KeyError string | ValueError | OSError | ProviderError string

text \<open>\<^verbatim>\<open>data.columns\<close>: the column names.\<close>

definition df_columns :: "DataFrame \<Rightarrow> string list" where
  "df_columns data =
     map fst (df_numeric data) @ (case df_ticker data of None \<Rightarrow> [] | Some _ \<Rightarrow> [''Ticker''])"

text \<open>\<^verbatim>\<open>data.empty\<close>: true when an axis has length zero (no rows, or no columns).\<close>

definition df_empty :: "DataFrame \<Rightarrow> bool" where
  "df_empty data = (df_index data = [] \<or> df_columns data = [])"

text \<open>\<^verbatim>\<open>data[name]\<close> for a numeric column; a name that is not a column raises
  \<^verbatim>\<open>KeyError\<close>.\<close>

definition df_getitem :: "DataFrame \<Rightarrow> string \<Rightarrow> py_error + cell list" where
  "df_getitem data name =
     (case map_of (df_numeric data) name of None \<Rightarrow> Inl (KeyError name) | Some vs \<Rightarrow> Inr vs)"

text \<open>\<^verbatim>\<open>data['Ticker'] = ticker\<close>: the column is set to the ticker on every row. (pandas
  keeps the position of a column that exists already; no check reads the position.)\<close>

definition df_set_ticker :: "DataFrame \<Rightarrow> string \<Rightarrow> DataFrame" where
  "df_set_ticker data ticker =
     data\<lparr>df_numeric := filter (\<lambda>(name, vs). name \<noteq> ''Ticker'') (df_numeric data),
          df_ticker := Some ticker\<rparr>"

text \<open>\<^verbatim>\<open>(series <= 0).any()\<close>: some cell holds a number that is not positive. A
  comparison with \<^verbatim>\<open>NaN\<close> is false.\<close>

definition any_le_zero :: "cell list \<Rightarrow> bool" where
  "any_le_zero vs = list_ex (\<lambda>v. case v of None \<Rightarrow> False | Some x \<Rightarrow> x \<le> 0) vs"

text \<open>\<^verbatim>\<open>data.isnull().sum().sum()\<close>: the number of null cells of the table (the
  \<^verbatim>\<open>Ticker\<close> column has none).\<close>

definition isnull_sum :: "DataFrame \<Rightarrow> nat" where
  "isnull_sum data =
     sum_list (map (\<lambda>(name, vs). length (filter (\<lambda>v. v = None) vs)) (df_numeric data))"

text \<open>\<^verbatim>\<open>series.min()\<close>, \<^verbatim>\<open>series.max()\<close> and \<^verbatim>\<open>series.mean()\<close> skip null cells and
  give \<^verbatim>\<open>NaN\<close> when no cell is left. The mean is the exact quotient here, where the
  program rounds to a float.\<close>

definition dropna :: "cell list \<Rightarrow> rat list" where
  "dropna vs = concat (map (\<lambda>v. case v of None \<Rightarrow> [] | Some x \<Rightarrow> [x]) vs)"

definition series_min :: "cell list \<Rightarrow> cell" where
  "series_min vs = (case dropna vs of [] \<Rightarrow> None | x # xs \<Rightarrow> Some (fold min xs x))"

definition series_max :: "cell list \<Rightarrow> cell" where
  "series_max vs = (case dropna vs of [] \<Rightarrow> None | x # xs \<Rightarrow> Some (fold max xs x))"

definition series_mean :: "cell list \<Rightarrow> cell" where
  "series_mean vs =
     (case dropna vs of [] \<Rightarrow> None | x # xs \<Rightarrow> Some (sum_list (x # xs) / of_nat (length (x # xs))))"

text \<open>\<^verbatim>\<open>data.index.min()\<close> and \<^verbatim>\<open>data.index.max()\<close>: \<open>None\<close> is \<^verbatim>\<open>NaT\<close>, the
  result on an index with no row.\<close>

definition index_min :: "int list \<Rightarrow> int option" where
  "index_min ts = (case ts of [] \<Rightarrow> None | t # rest \<Rightarrow> Some (fold min rest t))"

definition index_max :: "int list \<Rightarrow> int option" where
  "index_max ts = (case ts of [] \<Rightarrow> None | t # rest \<Rightarrow> Some (fold max rest t))"

section \<open>Storage, the provider and the trace of a run\<close>

text \<open>
  The data directory: its files by name. A file written to the end holds the table it
  was written from; a file whose write stopped before the end, and a file that some
  other program put there, hold no table. \<open>None\<close> is a directory that does not exist.
\<close>

datatype file_content = Complete DataFrame | Partial | Foreign

type_synonym directory = "(string \<times> file_content) list"

type_synonym storage = "directory option"

text \<open>\<^verbatim>\<open>os.path.exists(data_dir)\<close> and \<^verbatim>\<open>os.listdir(data_dir)\<close>.\<close>

definition path_exists :: "storage \<Rightarrow> bool" where
  "path_exists st = (st \<noteq> None)"

definition listdir :: "directory \<Rightarrow> string list" where
  "listdir d = map fst d"

text \<open>The file of a name in the data directory, when there is one.\<close>

definition file_at :: "storage \<Rightarrow> string \<Rightarrow> file_content option" where
  "file_at st name = (case st of None \<Rightarrow> None | Some d \<Rightarrow> map_of d name)"

text \<open>
  What the program does not decide is a parameter: the answer of the provider to the
  \<open>k\<close>-th request of a batch (\<^verbatim>\<open>yf.Ticker(ticker).history(period, interval)\<close> returns a
  table or raises), and how the write of a file ends. \<^verbatim>\<open>to_csv\<close> opens its target
  under the name it is given and writes the rows there, so a write can fail before the
  file is opened (the directory is left as it was) or after (a file of that name stays,
  incomplete).
\<close>

datatype history_result = Returns DataFrame | Raises py_error

datatype write_outcome = Write_ok | Write_fails_unopened | Write_fails_partway

record world =
  history :: "nat \<Rightarrow> string \<Rightarrow> string \<Rightarrow> string \<Rightarrow> history_result"
  csv_write :: "nat \<Rightarrow> string \<Rightarrow> write_outcome"
  summary_write :: write_outcome

text \<open>The effects of a run in their order: the calls that leave the program and the
  lines it logs.\<close>

datatype event =
    Info_processing nat nat string
  | Info_downloading string
  | Call_history string string string
  | Warn_no_data string
  | Call_to_csv string
  | Info_downloaded nat string
  | Info_saved string
  | Error_downloading string py_error
  | Call_sleep rat
  | Warn_empty string
  | Warn_missing_columns string "string list"
  | Warn_invalid_close string
  | Warn_missing_values nat string
  | Info_validation_passed string
  | Call_summary_to_csv
  | Info_summary_saved

section \<open>The inventory of the data directory\<close>

text \<open>\<^verbatim>\<open>get_existing_tickers\<close> of \<^verbatim>\<open>download_all_tickers.py\<close>: the loop over the
  directory listing, then the function.\<close>

fun existing_loop :: "string list \<Rightarrow> string set \<Rightarrow> string set" where
  "existing_loop [] existing_tickers = existing_tickers"
| "existing_loop (file # files) existing_tickers =
     (if endswith file ''.csv''
      then existing_loop files (insert (split_first CHR ''_'' file @ ''.IS'') existing_tickers)
      else existing_loop files existing_tickers)"

definition get_existing_tickers :: "storage \<Rightarrow> string set" where
  "get_existing_tickers st =
     (case st of None \<Rightarrow> {} | Some d \<Rightarrow> existing_loop (listdir d) {})"

text \<open>\<^verbatim>\<open>get_new_tickers_to_download\<close>. The configured list \<^verbatim>\<open>BIST_TICKERS\<close> is a
  parameter: the configuration module is not part of the sources.\<close>

fun new_tickers_loop :: "string set \<Rightarrow> string list \<Rightarrow> string list \<Rightarrow> string list" where
  "new_tickers_loop existing_tickers [] new_tickers = new_tickers"
| "new_tickers_loop existing_tickers (ticker # rest) new_tickers =
     (if ticker \<notin> existing_tickers
      then new_tickers_loop existing_tickers rest (new_tickers @ [ticker])
      else new_tickers_loop existing_tickers rest new_tickers)"

definition get_new_tickers_to_download :: "string list \<Rightarrow> storage \<Rightarrow> string list" where
  "get_new_tickers_to_download BIST_TICKERS st =
     new_tickers_loop (get_existing_tickers st) BIST_TICKERS []"

text \<open>The same inventory in \<^verbatim>\<open>check_download_progress\<close> of \<^verbatim>\<open>check_progress.py\<close>:
  the listing filtered, the ticker names taken from the file names, and the configured
  tickers that are not among them.\<close>

definition existing_files :: "storage \<Rightarrow> string list" where
  "existing_files st =
     (case st of None \<Rightarrow> [] | Some d \<Rightarrow> filter (\<lambda>f. endswith f ''.csv'') (listdir d))"

definition downloaded_tickers :: "storage \<Rightarrow> string set" where
  "downloaded_tickers st =
     set (map (\<lambda>file. split_first CHR ''_'' file @ ''.IS'') (existing_files st))"

definition missing_tickers :: "string list \<Rightarrow> storage \<Rightarrow> string set" where
  "missing_tickers BIST_TICKERS st = set BIST_TICKERS - downloaded_tickers st"

section \<open>The downloader\<close>

text \<open>\<^verbatim>\<open>_ensure_directories\<close>, run when a \<^verbatim>\<open>BISTDataDownloader\<close> is made: the data
  directory exists from then on.\<close>

definition ensure_directories :: "storage \<Rightarrow> storage" where
  "ensure_directories st = (case st of None \<Rightarrow> Some [] | Some d \<Rightarrow> Some d)"

text \<open>\<^verbatim>\<open>data.to_csv(filepath)\<close> on the data directory. Nothing can be written into a
  directory that does not exist.\<close>

definition to_csv ::
  "write_outcome \<Rightarrow> DataFrame \<Rightarrow> string \<Rightarrow> storage \<Rightarrow> (py_error + unit) \<times> storage" where
  "to_csv outcome data filepath st =
     (case st of
        None \<Rightarrow> (Inl OSError, None)
      | Some d \<Rightarrow>
          (case outcome of
             Write_ok \<Rightarrow> (Inr (), Some (AList.update filepath (Complete data) d))
           | Write_fails_unopened \<Rightarrow> (Inl OSError, Some d)
           | Write_fails_partway \<Rightarrow> (Inl OSError, Some (AList.update filepath Partial d))))"

text \<open>The name of the file of a ticker, as \<^verbatim>\<open>download_ticker_data\<close> builds it:
  \<^verbatim>\<open>f"{ticker.replace('.IS', '')}_{period}_{interval}.csv"\<close>.\<close>

definition filename :: "string \<Rightarrow> string \<Rightarrow> string \<Rightarrow> string" where
  "filename ticker period interval =
     replace ''.IS'' [] ticker @ ''_'' @ period @ ''_'' @ interval @ ''.csv''"

text \<open>\<^verbatim>\<open>download_ticker_data\<close>, as the \<open>k\<close>-th request of its batch. The result is the
  table or \<open>None\<close>, with the directory as the call leaves it and the events of the call.
  Every exception of the body ends in the handler, which logs it and returns \<open>None\<close>.
  Files are named inside the data directory.\<close>

definition download_ticker_data ::
  "world \<Rightarrow> nat \<Rightarrow> storage \<Rightarrow> string \<Rightarrow> string \<Rightarrow> string
     \<Rightarrow> DataFrame option \<times> storage \<times> event list" where
  "download_ticker_data w k st ticker period interval =
     (case history w k ticker period interval of
        Raises e \<Rightarrow>
          (None, st,
           [Info_downloading ticker, Call_history ticker period interval,
            Error_downloading ticker e])
      | Returns fetched \<Rightarrow>
          if df_empty fetched
          then (None, st,
                [Info_downloading ticker, Call_history ticker period interval,
                 Warn_no_data ticker])
          else
            (let data = df_set_ticker fetched ticker;
                 filepath = filename ticker period interval
             in case to_csv (csv_write w k filepath) data filepath st of
                  (Inl e, st') \<Rightarrow>
                    (None, st',
                     [Info_downloading ticker, Call_history ticker period interval,
                      Call_to_csv filepath, Error_downloading ticker e])
                | (Inr u, st') \<Rightarrow>
                    (Some data, st',
                     [Info_downloading ticker, Call_history ticker period interval,
                      Call_to_csv filepath, Info_downloaded (length (df_index data)) ticker,
                      Info_saved filepath])))"

text \<open>\<^verbatim>\<open>time.sleep(secs)\<close> raises \<^verbatim>\<open>ValueError\<close> on a negative length.\<close>

definition time_sleep :: "rat \<Rightarrow> py_error + unit" where
  "time_sleep secs = (if secs < 0 then Inl ValueError else Inr ())"

text \<open>\<^verbatim>\<open>download_multiple_tickers\<close>: the loop over \<^verbatim>\<open>enumerate(tickers)\<close>, with \<open>n\<close> the
  length of the whole list, then the function. The dictionary \<^verbatim>\<open>results\<close> keeps its
  keys in the order of their first insertion, so it is a list of pairs. The loop catches
  nothing: an exception of \<^verbatim>\<open>time.sleep\<close> ends the batch with no dictionary.\<close>

fun download_loop ::
  "world \<Rightarrow> nat \<Rightarrow> string \<Rightarrow> string \<Rightarrow> rat \<Rightarrow> (nat \<times> string) list
     \<Rightarrow> (string \<times> DataFrame) list \<Rightarrow> storage
     \<Rightarrow> (py_error + (string \<times> DataFrame) list) \<times> storage \<times> event list" where
  "download_loop w n period interval delay [] results st = (Inr results, st, [])"
| "download_loop w n period interval delay ((i, ticker) # rest) results st =
     (case download_ticker_data w i st ticker period interval of
        (data, st1, evs) \<Rightarrow>
          (let results1 = (case data of None \<Rightarrow> results
                           | Some d \<Rightarrow> AList.update ticker d results)
           in if int i < int n - 1
              then
                (case time_sleep delay of
                   Inl e \<Rightarrow>
                     (Inl e, st1, Info_processing (i + 1) n ticker # evs @ [Call_sleep delay])
                 | Inr u \<Rightarrow>
                     (case download_loop w n period interval delay rest results1 st1 of
                        (r, st2, evs2) \<Rightarrow>
                          (r, st2,
                           Info_processing (i + 1) n ticker # evs @ [Call_sleep delay] @ evs2)))
              else
                (case download_loop w n period interval delay rest results1 st1 of
                   (r, st2, evs2) \<Rightarrow>
                     (r, st2, Info_processing (i + 1) n ticker # evs @ evs2))))"

definition download_multiple_tickers ::
  "world \<Rightarrow> storage \<Rightarrow> string list \<Rightarrow> string \<Rightarrow> string \<Rightarrow> rat
     \<Rightarrow> (py_error + (string \<times> DataFrame) list) \<times> storage \<times> event list" where
  "download_multiple_tickers w st tickers period interval delay =
     download_loop w (length tickers) period interval delay (enumerate 0 tickers) [] st"

section \<open>The validator and the summary report\<close>

definition required_columns :: "string list" where
  "required_columns = [''Open'', ''High'', ''Low'', ''Close'', ''Volume'']"

text \<open>\<^verbatim>\<open>validate_data\<close>: the verdict (or the exception that ends the call) and the
  lines it logs. Each failed check returns at once.\<close>

definition validate_data :: "DataFrame \<Rightarrow> string \<Rightarrow> (py_error + bool) \<times> event list" where
  "validate_data data ticker =
     (if df_empty data then (Inr False, [Warn_empty ticker])
      else
        (let missing_columns = filter (\<lambda>col. col \<notin> set (df_columns data)) required_columns
         in if missing_columns \<noteq> []
            then (Inr False, [Warn_missing_columns ticker missing_columns])
            else
              (case df_getitem data ''Close'' of
                 Inl e \<Rightarrow> (Inl e, [])
               | Inr close \<Rightarrow>
                   if any_le_zero close then (Inr False, [Warn_invalid_close ticker])
                   else
                     (let missing_count = isnull_sum data
                      in (Inr True,
                          (if missing_count > 0
                           then [Warn_missing_values missing_count ticker] else [])
                          @ [Info_validation_passed ticker])))))"

text \<open>A row of the summary. The two dates are the day numbers that the program prints
  with \<^verbatim>\<open>strftime\<close>.\<close>

record SummaryRow =
  Ticker :: string
  Records :: nat
  Start_Date :: int
  End_Date :: int
  Min_Close :: cell
  Max_Close :: cell
  Avg_Volume :: cell
  Data_Quality :: string

text \<open>\<^verbatim>\<open>generate_summary_report\<close>: the loop over \<^verbatim>\<open>results.items()\<close>, then the
  function, which writes the rows to a file of the output directory. No exception is
  caught here: a column that is not there (\<^verbatim>\<open>KeyError\<close>), or a date that is
  \<^verbatim>\<open>NaT\<close> (\<^verbatim>\<open>ValueError\<close>), ends the call with no report.\<close>

fun summary_loop ::
  "(string \<times> DataFrame) list \<Rightarrow> (py_error + SummaryRow list) \<times> event list" where
  "summary_loop [] = (Inr [], [])"
| "summary_loop ((ticker, data) # rest) =
     (if \<not> df_empty data then
        (case index_min (df_index data) of
           None \<Rightarrow> (Inl ValueError, [])
         | Some start_date \<Rightarrow>
        (case index_max (df_index data) of
           None \<Rightarrow> (Inl ValueError, [])
         | Some end_date \<Rightarrow>
        (case df_getitem data ''Close'' of
           Inl e \<Rightarrow> (Inl e, [])
         | Inr close \<Rightarrow>
        (case df_getitem data ''Volume'' of
           Inl e \<Rightarrow> (Inl e, [])
         | Inr volume \<Rightarrow>
        (case validate_data data ticker of
           (Inl e, evs) \<Rightarrow> (Inl e, evs)
         | (Inr valid, evs) \<Rightarrow>
        (case summary_loop rest of
           (Inl e, evs2) \<Rightarrow> (Inl e, evs @ evs2)
         | (Inr rows, evs2) \<Rightarrow>
             (Inr (\<lparr>Ticker = ticker, Records = length (df_index data),
                     Start_Date = start_date, End_Date = end_date,
                     Min_Close = series_min close, Max_Close = series_max close,
                     Avg_Volume = series_mean volume,
                     Data_Quality = (if valid then ''Valid'' else ''Issues'')\<rparr> # rows),
              evs @ evs2)))))))
      else summary_loop rest)"

definition generate_summary_report ::
  "world \<Rightarrow> (string \<times> DataFrame) list \<Rightarrow> (py_error + SummaryRow list) \<times> event list" where
  "generate_summary_report w results =
     (case summary_loop results of
        (Inl e, evs) \<Rightarrow> (Inl e, evs)
      | (Inr summary_data, evs) \<Rightarrow>
          (case summary_write w of
             Write_ok \<Rightarrow> (Inr summary_data, evs @ [Call_summary_to_csv, Info_summary_saved])
           | Write_fails_unopened \<Rightarrow> (Inl OSError, evs @ [Call_summary_to_csv])
           | Write_fails_partway \<Rightarrow> (Inl OSError, evs @ [Call_summary_to_csv])))"

section \<open>Reading a trace\<close>

text \<open>The requests sent to the provider, the files handed to \<^verbatim>\<open>to_csv\<close>, and the lines
  that only \<^verbatim>\<open>validate_data\<close> logs (it logs at least one on every path).\<close>

fun history_calls :: "event list \<Rightarrow> (string \<times> string \<times> string) list" where
  "history_calls [] = []"
| "history_calls (Call_history ticker period interval # evs) =
     (ticker, period, interval) # history_calls evs"
| "history_calls (e # evs) = history_calls evs"

fun to_csv_calls :: "event list \<Rightarrow> string list" where
  "to_csv_calls [] = []"
| "to_csv_calls (Call_to_csv filepath # evs) = filepath # to_csv_calls evs"
| "to_csv_calls (e # evs) = to_csv_calls evs"

fun is_validation_event :: "event \<Rightarrow> bool" where
  "is_validation_event (Warn_empty t) = True"
| "is_validation_event (Warn_missing_columns t cols) = True"
| "is_validation_event (Warn_invalid_close t) = True"
| "is_validation_event (Warn_missing_values n t) = True"
| "is_validation_event (Info_validation_passed t) = True"
| "is_validation_event e = False"

text \<open>Two conditions on the world, for the statements below: the answer of the provider
  to request \<open>k\<close> is a table with rows (\<open>fetch_ok\<close>), and moreover the write of its file
  ends well (\<open>stored_ok\<close>).\<close>

definition fetch_ok :: "world \<Rightarrow> nat \<Rightarrow> string \<Rightarrow> string \<Rightarrow> string \<Rightarrow> bool" where
  "fetch_ok w k ticker period interval =
     (case history w k ticker period interval of
        Returns fetched \<Rightarrow> \<not> df_empty fetched
      | Raises e \<Rightarrow> False)"

definition stored_ok :: "world \<Rightarrow> nat \<Rightarrow> string \<Rightarrow> string \<Rightarrow> string \<Rightarrow> bool" where
  "stored_ok w k ticker period interval =
     (fetch_ok w k ticker period interval
      \<and> csv_write w k (filename ticker period interval) = Write_ok)"

text \<open>The shape of the tickers of the exchange, as in the example \<^verbatim>\<open>'THYAO.IS'\<close> of the
  program's comments: a code with no underscore and no dot, then \<^verbatim>\<open>.IS\<close>.\<close>

definition bist_ticker :: "string \<Rightarrow> bool" where
  "bist_ticker s =
     (endswith s ''.IS''
      \<and> list_all (\<lambda>c. c \<noteq> CHR ''_'' \<and> c \<noteq> CHR ''.'') (take (length s - 3) s))"

section \<open>Sample inputs\<close>

text \<open>A table of two days with every column, and a provider that answers every request
  with it, on a disk where every write ends well.\<close>

definition sample_table :: DataFrame where
  "sample_table =
     \<lparr>df_index = [1, 2],
      df_numeric =
        [(''Open'', [Some 10, Some 11]), (''High'', [Some 12, Some 13]),
         (''Low'', [Some 9, Some 10]), (''Close'', [Some 11, Some 12]),
         (''Volume'', [Some 1000, Some 3000])],
      df_ticker = None\<rparr>"

definition steady_world :: world where
  "steady_world =
     \<lparr>history = (\<lambda>k ticker period interval. Returns sample_table),
      csv_write = (\<lambda>k filepath. Write_ok),
      summary_write = Write_ok\<rparr>"

text \<open>Three configured tickers, and a data directory that holds the file of the second
  beside a file of another kind.\<close>

definition sample_universe :: "string list" where
  "sample_universe = [''THYAO.IS'', ''GARAN.IS'', ''AKBNK.IS'']"

definition sample_directory :: directory where
  "sample_directory = [(''GARAN_1y_1d.csv'', Complete sample_table), (''notes.txt'', Foreign)]"

text \<open>The sample table with another close column, with or without its volume column.\<close>

definition sample_with :: "cell list \<Rightarrow> bool \<Rightarrow> DataFrame" where
  "sample_with close with_volume =
     \<lparr>df_index = [1, 2],
      df_numeric =
        [(''Open'', [Some 10, Some 11]), (''High'', [Some 12, Some 13]),
         (''Low'', [Some 9, Some 10]), (''Close'', close)]
        @ (if with_volume then [(''Volume'', [Some 1000, None])] else []),
      df_ticker = None\<rparr>"

text \<open>A provider that answers the first request of a batch with a table of no rows,
  fails on the second and delivers the sample table from then on; a provider whose table
  has a close that is not positive; a provider whose table has no volume column; and a
  disk on which every write stops partway.\<close>

definition flaky_world :: world where
  "flaky_world =
     \<lparr>history = (\<lambda>k ticker period interval.
         if k = 0 then Returns \<lparr>df_index = [], df_numeric = [], df_ticker = None\<rparr>
         else if k = 1 then Raises (ProviderError ''timeout'')
         else Returns sample_table),
      csv_write = (\<lambda>k filepath. Write_ok),
      summary_write = Write_ok\<rparr>"

definition invalid_world :: world where
  "invalid_world =
     \<lparr>history = (\<lambda>k ticker period interval. Returns (sample_with [Some 11, Some (- 1)] True)),
      csv_write = (\<lambda>k filepath. Write_ok),
      summary_write = Write_ok\<rparr>"

definition no_volume_world :: world where
  "no_volume_world =
     \<lparr>history = (\<lambda>k ticker period interval. Returns (sample_with [Some 11, Some 12] False)),
      csv_write = (\<lambda>k filepath. Write_ok),
      summary_write = Write_ok\<rparr>"

definition partial_write_world :: world where
  "partial_write_world =
     \<lparr>history = (\<lambda>k ticker period interval. Returns sample_table),
      csv_write = (\<lambda>k filepath. Write_fails_partway),
      summary_write = Write_ok\<rparr>"

section \<open>The validator of the specification\<close>



section \<open>Auxiliary facts\<close>

subsection \<open>The inventory in closed form\<close>

lemma existing_loop_eq:
  "existing_loop files acc =
     acc \<union> (\<lambda>f. split_first CHR ''_'' f @ ''.IS'') ` {f \<in> set files. endswith f ''.csv''}"
  by (induction files arbitrary: acc) auto

lemma new_tickers_loop_eq:
  "new_tickers_loop ex ts acc = acc @ filter (\<lambda>t. t \<notin> ex) ts"
  by (induction ts arbitrary: acc) auto

lemma get_new_tickers_eq:
  "get_new_tickers_to_download U st = filter (\<lambda>t. t \<notin> get_existing_tickers st) U"
  by (simp add: get_new_tickers_to_download_def new_tickers_loop_eq)

subsection \<open>File names of tickers\<close>

lemma replace_bist_base:
  "CHR ''.'' \<notin> set base \<Longrightarrow> replace ''.IS'' [] (base @ ''.IS'') = base"
  by (induction base) auto

lemma split_first_base:
  "sep \<notin> set base \<Longrightarrow> split_first sep (base @ sep # rest) = base"
  by (induction base) (auto simp: split_first_def)

lemma bist_ticker_split:
  assumes "bist_ticker s"
  obtains base where "s = base @ ''.IS''" "CHR ''_'' \<notin> set base" "CHR ''.'' \<notin> set base"
proof -
  let ?base = "take (length s - 3) s"
  from assms have e: "drop (length s - 3) s = ''.IS''"
    and a: "list_all (\<lambda>c. c \<noteq> CHR ''_'' \<and> c \<noteq> CHR ''.'') ?base"
    by (simp_all add: bist_ticker_def endswith_def numeral_3_eq_3)
  have "s = ?base @ ''.IS''"
    using append_take_drop_id [of "length s - 3" s] e by simp
  moreover from a have "CHR ''_'' \<notin> set ?base" "CHR ''.'' \<notin> set ?base"
    by (auto simp: list_all_iff)
  ultimately show thesis using that by blast
qed

lemma filename_bist:
  assumes "CHR ''_'' \<notin> set base" "CHR ''.'' \<notin> set base"
  shows "filename (base @ ''.IS'') p i = base @ ''_'' @ p @ ''_'' @ i @ ''.csv''"
    and "endswith (filename (base @ ''.IS'') p i) ''.csv''"
    and "split_first CHR ''_'' (filename (base @ ''.IS'') p i) = base"
proof -
  show f: "filename (base @ ''.IS'') p i = base @ ''_'' @ p @ ''_'' @ i @ ''.csv''"
    using assms(2) by (simp add: filename_def replace_bist_base)
  show "endswith (filename (base @ ''.IS'') p i) ''.csv''"
    by (simp add: filename_def endswith_def)
  show "split_first CHR ''_'' (filename (base @ ''.IS'') p i) = base"
    using split_first_base [OF assms(1)] by (simp add: f)
qed

lemma bist_ticker_in_inventory:
  assumes "bist_ticker s" "filename s p i \<in> set (listdir d)"
  shows "s \<in> get_existing_tickers (Some d)"
proof -
  from assms(1) obtain base where
    s: "s = base @ ''.IS''" and b: "CHR ''_'' \<notin> set base" "CHR ''.'' \<notin> set base"
    by (rule bist_ticker_split)
  have 1: "split_first CHR ''_'' (filename s p i) @ ''.IS'' = s"
    using filename_bist(3) [OF b] by (simp add: s)
  have 2: "endswith (filename s p i) ''.csv''"
    using filename_bist(2) [OF b] by (simp add: s)
  have "filename s p i \<in> {f \<in> set (listdir d). endswith f ''.csv''}"
    using assms(2) 2 by simp
  then have "split_first CHR ''_'' (filename s p i) @ ''.IS''
      \<in> (\<lambda>f. split_first CHR ''_'' f @ ''.IS'') ` {f \<in> set (listdir d). endswith f ''.csv''}"
    by (rule imageI)
  then show ?thesis
    by (simp add: 1 get_existing_tickers_def existing_loop_eq)
qed

lemma filename_underscores: "2 \<le> length (filter (\<lambda>c. c = CHR ''_'') (filename t p i))"
  by (simp add: filename_def)

lemma downloaded_tickers_eq: "downloaded_tickers st = get_existing_tickers st"
  by (cases st)
    (auto simp: downloaded_tickers_def existing_files_def get_existing_tickers_def
      existing_loop_eq)

lemma inventory_closed_form:
  "get_existing_tickers (Some d) =
     (\<lambda>f. split_first CHR ''_'' f @ ''.IS'') ` {f \<in> set (listdir d). endswith f ''.csv''}"
  by (simp add: get_existing_tickers_def existing_loop_eq)

lemma bist_ticker_alone:
  assumes "bist_ticker s"
  shows "get_existing_tickers (Some [(filename s p i, c)]) = {s}"
proof -
  from assms obtain base where
    s: "s = base @ ''.IS''" and b: "CHR ''_'' \<notin> set base" "CHR ''.'' \<notin> set base"
    by (rule bist_ticker_split)
  from filename_bist(2,3) [OF b, of p i] show ?thesis
    by (auto simp: inventory_closed_form listdir_def s)
qed

subsection \<open>Traces\<close>

lemma history_calls_append: "history_calls (a @ b) = history_calls a @ history_calls b"
  by (induction a rule: history_calls.induct) auto

lemma to_csv_calls_append: "to_csv_calls (a @ b) = to_csv_calls a @ to_csv_calls b"
  by (induction a rule: to_csv_calls.induct) auto

lemma map_enumerate_snd: "map (\<lambda>(k, t). f t) (enumerate m xs) = map f xs"
  by (induction xs arbitrary: m) auto

subsection \<open>One download\<close>

lemma download_ticker_data_cases:
  assumes "download_ticker_data w k st t p i = (data, st1, evs)"
  shows "history_calls evs = [(t, p, i)]"
    and "to_csv_calls evs = (if fetch_ok w k t p i then [filename t p i] else [])"
    and "filter is_validation_event evs = []"
    and "data \<noteq> None \<longleftrightarrow> stored_ok w k t p i \<and> path_exists st"
    and "path_exists st1 \<longleftrightarrow> path_exists st"
    and "\<And>df. data = Some df \<Longrightarrow> \<not> df_empty df"
  using assms
  by (auto simp: download_ticker_data_def Let_def fetch_ok_def stored_ok_def to_csv_def
      path_exists_def df_empty_def df_set_ticker_def df_columns_def
      split: history_result.splits prod.splits sum.splits if_splits option.splits
        write_outcome.splits)

lemma file_in_listing:
  assumes "file_at st name \<noteq> None"
  obtains d where "st = Some d" "name \<in> set (listdir d)"
proof (cases st)
  case None
  with assms show thesis by (simp add: file_at_def)
next
  case (Some d)
  with assms have "map_of d name \<noteq> None" by (simp add: file_at_def)
  then have "name \<in> fst ` set d" by (simp add: map_of_eq_None_iff)
  with Some that show thesis by (simp add: listdir_def)
qed

lemma download_ticker_data_write:
  assumes "download_ticker_data w k st t p i = (data, st1, evs)"
  shows "\<And>table. data = Some table \<Longrightarrow> file_at st1 (filename t p i) = Some (Complete table)"
    and "fetch_ok w k t p i \<Longrightarrow> path_exists st \<Longrightarrow> csv_write w k (filename t p i) = Write_fails_partway
           \<Longrightarrow> file_at st1 (filename t p i) = Some Partial"
    and "fetch_ok w k t p i \<Longrightarrow> csv_write w k (filename t p i) = Write_fails_unopened
           \<Longrightarrow> st1 = st"
  using assms
  by (auto simp: download_ticker_data_def Let_def fetch_ok_def to_csv_def file_at_def
      update_conv' path_exists_def
      split: history_result.splits prod.splits sum.splits if_splits option.splits
        write_outcome.splits)

subsection \<open>The batch\<close>

lemma update_set_cases:
  "x \<in> set (AList.update k v al) \<Longrightarrow> x = (k, v) \<or> x \<in> set al"
  by (induction al) (auto split: if_splits)

lemma download_loop_Cons:
  assumes "0 \<le> d"
    and "download_ticker_data w k st t p i = (data, st1, evs)"
    and "download_loop w n p i d es
           (case data of None \<Rightarrow> res | Some df \<Rightarrow> AList.update t df res) st1
         = (r, st2, evs2)"
  shows "download_loop w n p i d ((k, t) # es) res st =
           (r, st2, Info_processing (k + 1) n t # evs
              @ (if int k < int n - 1 then [Call_sleep d] else []) @ evs2)"
  using assms by (simp add: Let_def time_sleep_def)

lemma download_loop_step:
  assumes "0 \<le> d"
    and "download_loop w n p i d ((k, t) # es) res st = (r, st', evs)"
  obtains data st1 evs1 evs2 where
    "download_ticker_data w k st t p i = (data, st1, evs1)"
    "download_loop w n p i d es
       (case data of None \<Rightarrow> res | Some df \<Rightarrow> AList.update t df res) st1
     = (r, st', evs2)"
    "evs = Info_processing (k + 1) n t # evs1
             @ (if int k < int n - 1 then [Call_sleep d] else []) @ evs2"
proof -
  obtain data st1 evs1 where c: "download_ticker_data w k st t p i = (data, st1, evs1)"
    by (cases "download_ticker_data w k st t p i")
  let ?res1 = "case data of None \<Rightarrow> res | Some df \<Rightarrow> AList.update t df res"
  obtain r2 st2 evs2 where l: "download_loop w n p i d es ?res1 st1 = (r2, st2, evs2)"
    by (cases "download_loop w n p i d es ?res1 st1")
  from assms(2) download_loop_Cons [OF assms(1) c l] have
    "r = r2" "st' = st2"
    "evs = Info_processing (k + 1) n t # evs1
             @ (if int k < int n - 1 then [Call_sleep d] else []) @ evs2"
    by simp_all
  with c l that show thesis by blast
qed

lemma download_loop_returns:
  "0 \<le> d \<Longrightarrow> download_loop w n p i d es res st = (r, st', evs) \<Longrightarrow> \<exists>res'. r = Inr res'"
proof (induction es arbitrary: res st evs)
  case Nil
  then show ?case by auto
next
  case (Cons e es)
  obtain k t where e: "e = (k, t)" by (cases e)
  from Cons.prems obtain data st1 evs1 evs2 where
    "download_loop w n p i d es
       (case data of None \<Rightarrow> res | Some df \<Rightarrow> AList.update t df res) st1
     = (r, st', evs2)"
    unfolding e by (rule download_loop_step)
  with Cons.IH [OF Cons.prems(1)] show ?case by blast
qed

lemma download_loop_trace:
  "0 \<le> d \<Longrightarrow> download_loop w n p i d es res st = (r, st', evs) \<Longrightarrow>
     history_calls evs = map (\<lambda>(k, t). (t, p, i)) es
     \<and> to_csv_calls evs =
         map (\<lambda>(k, t). filename t p i) (filter (\<lambda>(k, t). fetch_ok w k t p i) es)
     \<and> filter is_validation_event evs = []
     \<and> (path_exists st' \<longleftrightarrow> path_exists st)"
proof (induction es arbitrary: res st evs)
  case Nil
  then show ?case by simp
next
  case (Cons e es)
  obtain k t where e: "e = (k, t)" by (cases e)
  from Cons.prems obtain data st1 evs1 evs2 where
    c: "download_ticker_data w k st t p i = (data, st1, evs1)" and
    l: "download_loop w n p i d es
          (case data of None \<Rightarrow> res | Some df \<Rightarrow> AList.update t df res) st1
        = (r, st', evs2)" and
    ev: "evs = Info_processing (k + 1) n t # evs1
             @ (if int k < int n - 1 then [Call_sleep d] else []) @ evs2"
    unfolding e by (rule download_loop_step)
  show ?case
    using Cons.IH [OF Cons.prems(1) l] download_ticker_data_cases(1,2,3,5) [OF c]
    by (simp add: e ev history_calls_append to_csv_calls_append)
qed

lemma download_loop_results:
  "0 \<le> d \<Longrightarrow> download_loop w n p i d es res st = (Inr res', st', evs) \<Longrightarrow>
     fst ` set res' =
       fst ` set res \<union> {t. \<exists>k. (k, t) \<in> set es \<and> stored_ok w k t p i \<and> path_exists st}"
proof (induction es arbitrary: res st evs)
  case Nil
  then show ?case by simp
next
  case (Cons e es)
  obtain k t where e: "e = (k, t)" by (cases e)
  from Cons.prems obtain data st1 evs1 evs2 where
    c: "download_ticker_data w k st t p i = (data, st1, evs1)" and
    l: "download_loop w n p i d es
          (case data of None \<Rightarrow> res | Some df \<Rightarrow> AList.update t df res) st1
        = (Inr res', st', evs2)"
    unfolding e by (rule download_loop_step)
  note f = download_ticker_data_cases(4,5) [OF c]
  show ?case
  proof (cases data)
    case None
    with f have "\<not> (stored_ok w k t p i \<and> path_exists st)" by simp
    with Cons.IH [OF Cons.prems(1) l] f(2) None show ?thesis by (auto simp: e)
  next
    case (Some df)
    with f have "stored_ok w k t p i \<and> path_exists st" by simp
    with Cons.IH [OF Cons.prems(1) l] f(2) Some show ?thesis by (auto simp: e dom_update)
  qed
qed

lemma download_loop_invariants:
  "0 \<le> d \<Longrightarrow> download_loop w n p i d es res st = (Inr res', st', evs) \<Longrightarrow>
     distinct (map fst res) \<Longrightarrow> list_all (\<lambda>(t, df). \<not> df_empty df) res \<Longrightarrow>
     distinct (map fst res') \<and> list_all (\<lambda>(t, df). \<not> df_empty df) res'"
proof (induction es arbitrary: res st evs)
  case Nil
  then show ?case by simp
next
  case (Cons e es)
  obtain k t where e: "e = (k, t)" by (cases e)
  from Cons.prems(1,2) obtain data st1 evs1 evs2 where
    c: "download_ticker_data w k st t p i = (data, st1, evs1)" and
    l: "download_loop w n p i d es
          (case data of None \<Rightarrow> res | Some df \<Rightarrow> AList.update t df res) st1
        = (Inr res', st', evs2)"
    unfolding e by (rule download_loop_step)
  let ?res1 = "case data of None \<Rightarrow> res | Some df \<Rightarrow> AList.update t df res"
  have "distinct (map fst ?res1)"
    using Cons.prems(3) by (simp add: distinct_update split: option.splits)
  moreover have "list_all (\<lambda>(t, df). \<not> df_empty df) ?res1"
    using Cons.prems(4) download_ticker_data_cases(6) [OF c]
    by (auto simp: list_all_iff split: option.splits dest!: update_set_cases)
  ultimately show ?case by (rule Cons.IH [OF Cons.prems(1) l])
qed

lemma download_ticker_data_storage:
  assumes "download_ticker_data w k st t p i = (data, st1, evs)"
  shows "f \<notin> set (to_csv_calls evs) \<Longrightarrow> file_at st1 f = file_at st f"
    and "\<not> fetch_ok w k t p i \<Longrightarrow> st1 = st"
  using assms
  by (auto simp: download_ticker_data_def Let_def fetch_ok_def to_csv_def file_at_def update_conv'
      split: history_result.splits prod.splits sum.splits if_splits option.splits
        write_outcome.splits)

lemma download_loop_storage:
  "0 \<le> d \<Longrightarrow> download_loop w n p i d es res st = (r, st', evs) \<Longrightarrow>
     f \<notin> set (to_csv_calls evs) \<Longrightarrow> file_at st' f = file_at st f"
proof (induction es arbitrary: res st evs)
  case Nil
  then show ?case by simp
next
  case (Cons e es)
  obtain k t where e: "e = (k, t)" by (cases e)
  from Cons.prems(1,2) obtain data st1 evs1 evs2 where
    c: "download_ticker_data w k st t p i = (data, st1, evs1)" and
    l: "download_loop w n p i d es
          (case data of None \<Rightarrow> res | Some df \<Rightarrow> AList.update t df res) st1
        = (r, st', evs2)" and
    ev: "evs = Info_processing (k + 1) n t # evs1
             @ (if int k < int n - 1 then [Call_sleep d] else []) @ evs2"
    unfolding e by (rule download_loop_step)
  from Cons.prems(3) have "f \<notin> set (to_csv_calls evs1)" "f \<notin> set (to_csv_calls evs2)"
    by (simp_all add: ev to_csv_calls_append)
  with Cons.IH [OF Cons.prems(1) l] download_ticker_data_storage(1) [OF c] show ?case by simp
qed

text \<open>With a delay that is not negative the batch returns its dictionary, and the facts
  of the loop are facts of the batch.\<close>

lemma download_multiple_returns:
  assumes "0 \<le> d"
  obtains results st' evs where
    "download_multiple_tickers w st tickers p i d = (Inr results, st', evs)"
proof -
  obtain r st' evs where run: "download_multiple_tickers w st tickers p i d = (r, st', evs)"
    by (cases "download_multiple_tickers w st tickers p i d")
  then have "download_loop w (length tickers) p i d (enumerate 0 tickers) [] st = (r, st', evs)"
    by (simp add: download_multiple_tickers_def)
  from download_loop_returns [OF assms this] obtain results where "r = Inr results" by blast
  with run that show thesis by blast
qed

lemma download_multiple_trace:
  assumes "0 \<le> d"
    and "download_multiple_tickers w st tickers p i d = (r, st', evs)"
  shows "history_calls evs = map (\<lambda>t. (t, p, i)) tickers"
    and "to_csv_calls evs =
           map (\<lambda>(k, t). filename t p i)
             (filter (\<lambda>(k, t). fetch_ok w k t p i) (enumerate 0 tickers))"
    and "filter is_validation_event evs = []"
    and "path_exists st' \<longleftrightarrow> path_exists st"
  using download_loop_trace
    [OF assms(1), of w "length tickers" p i "enumerate 0 tickers" "[]" st r st' evs] assms(2)
  by (simp_all add: download_multiple_tickers_def map_enumerate_snd)

lemma download_multiple_results:
  assumes "0 \<le> d"
    and "download_multiple_tickers w st tickers p i d = (Inr results, st', evs)"
  shows "fst ` set results =
           {t. \<exists>k. (k, t) \<in> set (enumerate 0 tickers) \<and> stored_ok w k t p i \<and> path_exists st}"
    and "distinct (map fst results)"
    and "list_all (\<lambda>(t, df). \<not> df_empty df) results"
    and "\<And>f. f \<notin> set (to_csv_calls evs) \<Longrightarrow> file_at st' f = file_at st f"
proof -
  from assms(2) have l: "download_loop w (length tickers) p i d (enumerate 0 tickers) [] st
      = (Inr results, st', evs)"
    by (simp add: download_multiple_tickers_def)
  from download_loop_results [OF assms(1) l] show "fst ` set results =
      {t. \<exists>k. (k, t) \<in> set (enumerate 0 tickers) \<and> stored_ok w k t p i \<and> path_exists st}"
    by simp
  from download_loop_invariants [OF assms(1) l] show "distinct (map fst results)"
    and "list_all (\<lambda>(t, df). \<not> df_empty df) results"
    by simp_all
  show "\<And>f. f \<notin> set (to_csv_calls evs) \<Longrightarrow> file_at st' f = file_at st f"
    using download_loop_storage [OF assms(1) l] .
qed

lemma triple_collapse: "x = (fst x, fst (snd x), snd (snd x))"
  by simp

subsection \<open>The validator, path by path\<close>

lemma any_le_zero_iff: "any_le_zero vs \<longleftrightarrow> (\<exists>x. Some x \<in> set vs \<and> x \<le> 0)"
  by (auto simp: any_le_zero_def list_ex_iff split: option.splits)

lemma close_column_present:
  assumes "''Close'' \<in> set (df_columns data)"
  obtains close where "df_getitem data ''Close'' = Inr close"
proof -
  from assms have "''Close'' \<in> fst ` set (df_numeric data)"
    by (auto simp: df_columns_def split: option.splits)
  then have "map_of (df_numeric data) ''Close'' \<noteq> None"
    by (simp add: map_of_eq_None_iff)
  then show thesis
    using that by (auto simp: df_getitem_def)
qed

lemma validate_data_empty:
  "df_empty data \<Longrightarrow> validate_data data t = (Inr False, [Warn_empty t])"
  by (simp add: validate_data_def)

lemma validate_data_missing:
  "\<not> df_empty data \<Longrightarrow> filter (\<lambda>col. col \<notin> set (df_columns data)) required_columns = m
    \<Longrightarrow> m \<noteq> []
    \<Longrightarrow> validate_data data t = (Inr False, [Warn_missing_columns t m])"
  by (simp add: validate_data_def Let_def)

lemma validate_data_close:
  "\<not> df_empty data \<Longrightarrow> filter (\<lambda>col. col \<notin> set (df_columns data)) required_columns = []
    \<Longrightarrow> df_getitem data ''Close'' = Inr close \<Longrightarrow> any_le_zero close
    \<Longrightarrow> validate_data data t = (Inr False, [Warn_invalid_close t])"
  by (simp add: validate_data_def Let_def)

lemma validate_data_passed:
  "\<not> df_empty data \<Longrightarrow> filter (\<lambda>col. col \<notin> set (df_columns data)) required_columns = []
    \<Longrightarrow> df_getitem data ''Close'' = Inr close \<Longrightarrow> \<not> any_le_zero close
    \<Longrightarrow> validate_data data t =
         (Inr True,
          (if isnull_sum data > 0 then [Warn_missing_values (isnull_sum data) t] else [])
          @ [Info_validation_passed t])"
  by (simp add: validate_data_def Let_def)

lemma close_is_required: "''Close'' \<in> set required_columns"
  by (simp add: required_columns_def)

subsection \<open>The rows of the summary\<close>


lemma validate_data_logs:
  "filter is_validation_event (snd (validate_data data t)) \<noteq> []"
proof (cases "df_empty data")
  case True
  then show ?thesis by (simp add: validate_data_empty)
next
  case nonempty: False
  let ?m = "filter (\<lambda>col. col \<notin> set (df_columns data)) required_columns"
  show ?thesis
  proof (cases "?m = []")
    case False
    from validate_data_missing [OF nonempty refl False] show ?thesis by simp
  next
    case True
    then have "''Close'' \<in> set (df_columns data)"
      using close_is_required by (auto simp: filter_empty_conv)
    then obtain close where c: "df_getitem data ''Close'' = Inr close"
      by (rule close_column_present)
    show ?thesis
    proof (cases "any_le_zero close")
      case True
      from validate_data_close [OF nonempty \<open>?m = []\<close> c True] show ?thesis by simp
    next
      case False
      from validate_data_passed [OF nonempty \<open>?m = []\<close> c False] show ?thesis by simp
    qed
  qed
qed







subsection \<open>Sample inputs\<close>

lemma sample_inventory: "get_existing_tickers (Some sample_directory) = {''GARAN.IS''}"
  by (simp add: get_existing_tickers_def sample_directory_def listdir_def endswith_def
      split_first_def)

lemma flaky_run:
  "download_multiple_tickers flaky_world (Some []) sample_universe ''1y'' ''1d'' 1 =
     (Inr [(''AKBNK.IS'', df_set_ticker sample_table ''AKBNK.IS'')],
      Some [(''AKBNK_1y_1d.csv'', Complete (df_set_ticker sample_table ''AKBNK.IS''))],
      [Info_processing 1 3 ''THYAO.IS'', Info_downloading ''THYAO.IS'',
       Call_history ''THYAO.IS'' ''1y'' ''1d'', Warn_no_data ''THYAO.IS'', Call_sleep 1,
       Info_processing 2 3 ''GARAN.IS'', Info_downloading ''GARAN.IS'',
       Call_history ''GARAN.IS'' ''1y'' ''1d'',
       Error_downloading ''GARAN.IS'' (ProviderError ''timeout''), Call_sleep 1,
       Info_processing 3 3 ''AKBNK.IS'', Info_downloading ''AKBNK.IS'',
       Call_history ''AKBNK.IS'' ''1y'' ''1d'', Call_to_csv ''AKBNK_1y_1d.csv'',
       Info_downloaded 2 ''AKBNK.IS'', Info_saved ''AKBNK_1y_1d.csv''])"
  by (simp add: download_multiple_tickers_def sample_universe_def enumerate_eq_zip upt_rec
      download_ticker_data_def flaky_world_def df_empty_def df_columns_def sample_table_def
      df_set_ticker_def filename_def to_csv_def time_sleep_def Let_def)


text \<open>A negative delay ends a batch of two after its first request.\<close>

lemma negative_delay_run:
  "download_multiple_tickers steady_world (Some []) [''THYAO.IS'', ''GARAN.IS''] ''1y'' ''1d'' (- 1) =
     (Inl ValueError,
      Some [(''THYAO_1y_1d.csv'', Complete (df_set_ticker sample_table ''THYAO.IS''))],
      [Info_processing 1 2 ''THYAO.IS'', Info_downloading ''THYAO.IS'',
       Call_history ''THYAO.IS'' ''1y'' ''1d'', Call_to_csv ''THYAO_1y_1d.csv'',
       Info_downloaded 2 ''THYAO.IS'', Info_saved ''THYAO_1y_1d.csv'', Call_sleep (- 1)])"
  by (simp add: download_multiple_tickers_def enumerate_eq_zip upt_rec
      download_ticker_data_def steady_world_def df_empty_def df_columns_def sample_table_def
      df_set_ticker_def filename_def to_csv_def time_sleep_def Let_def)

section \<open>The claims\<close>

subsection \<open>C1: the batch requests the missing symbols, and only them\<close>

text \<open>
  Claim C1. A run computes the missing symbols with \<^verbatim>\<open>get_new_tickers_to_download\<close>,
  makes the downloader and hands it that list. With a delay that is not negative the
  batch returns, and the requests it sent to the provider are exactly the symbols of the
  universe that are not in the inventory of the data directory, in the order of the
  universe, each with the configured period and interval. No symbol of the inventory is
  requested, a universe without repetition is requested without repetition, and a ticker
  of the exchange's shape whose file is in the directory is in the inventory, so it is
  not requested.
\<close>

theorem C1_requests_are_the_missing_symbols:
  assumes "0 \<le> delay"
  shows "\<exists>results st' evs.
           download_multiple_tickers w (ensure_directories st)
             (get_new_tickers_to_download universe st) period interval delay
           = (Inr results, st', evs)
         \<and> history_calls evs =
             map (\<lambda>s. (s, period, interval))
               (filter (\<lambda>s. s \<notin> get_existing_tickers st) universe)
         \<and> (\<forall>s \<in> get_existing_tickers st. s \<notin> fst ` set (history_calls evs))
         \<and> (distinct universe \<longrightarrow> distinct (history_calls evs))
         \<and> (\<forall>s d p i. st = Some d \<and> bist_ticker s \<and> filename s p i \<in> set (listdir d)
               \<longrightarrow> s \<notin> fst ` set (history_calls evs))"
proof -
  let ?missing = "filter (\<lambda>s. s \<notin> get_existing_tickers st) universe"
  from assms obtain results st' evs where
    run: "download_multiple_tickers w (ensure_directories st)
            (get_new_tickers_to_download universe st) period interval delay
          = (Inr results, st', evs)"
    by (rule download_multiple_returns)
  have calls: "history_calls evs = map (\<lambda>s. (s, period, interval)) ?missing"
    using download_multiple_trace(1) [OF assms run] by (simp add: get_new_tickers_eq)
  have fetched: "fst ` set (history_calls evs) = set ?missing"
    by (simp add: calls image_image)
  have never: "\<forall>s \<in> get_existing_tickers st. s \<notin> fst ` set (history_calls evs)"
    by (simp add: fetched)
  have once: "distinct universe \<longrightarrow> distinct (history_calls evs)"
    by (simp add: calls distinct_map inj_on_def)
  have files: "\<forall>s d p i. st = Some d \<and> bist_ticker s \<and> filename s p i \<in> set (listdir d)
      \<longrightarrow> s \<notin> fst ` set (history_calls evs)"
    using bist_ticker_in_inventory never by blast
  from run calls never once files show ?thesis
    by (intro exI conjI)
qed

theorem C1_requests_witness:
  "(0::rat) \<le> 1
   \<and> distinct sample_universe
   \<and> bist_ticker ''GARAN.IS''
   \<and> filename ''GARAN.IS'' ''1y'' ''1d'' \<in> set (listdir sample_directory)
   \<and> ''GARAN.IS'' \<in> get_existing_tickers (Some sample_directory)
   \<and> history_calls (snd (snd (download_multiple_tickers steady_world
         (ensure_directories (Some sample_directory))
         (get_new_tickers_to_download sample_universe (Some sample_directory))
         ''1y'' ''1d'' 1)))
       = [(''THYAO.IS'', ''1y'', ''1d''), (''AKBNK.IS'', ''1y'', ''1d'')]
   \<and> ''GARAN.IS'' \<notin> fst ` set (history_calls (snd (snd (download_multiple_tickers steady_world
         (ensure_directories (Some sample_directory))
         (get_new_tickers_to_download sample_universe (Some sample_directory))
         ''1y'' ''1d'' 1))))
   \<and> distinct (history_calls (snd (snd (download_multiple_tickers steady_world
         (ensure_directories (Some sample_directory))
         (get_new_tickers_to_download sample_universe (Some sample_directory))
         ''1y'' ''1d'' 1))))"
proof -
  let ?run = "download_multiple_tickers steady_world
         (ensure_directories (Some sample_directory))
         (get_new_tickers_to_download sample_universe (Some sample_directory))
         ''1y'' ''1d'' 1"
  have z: "(0::rat) \<le> 1"
    by simp
  have d: "distinct sample_universe"
    by (simp add: sample_universe_def)
  have b: "bist_ticker ''GARAN.IS''"
    by (simp add: bist_ticker_def endswith_def)
  have f: "filename ''GARAN.IS'' ''1y'' ''1d'' \<in> set (listdir sample_directory)"
    by (simp add: filename_def sample_directory_def listdir_def)
  from C1_requests_are_the_missing_symbols
    [OF z, of steady_world "Some sample_directory" sample_universe "''1y''" "''1d''"]
  obtain results st' evs where
    run: "?run = (Inr results, st', evs)" and
    calls: "history_calls evs =
             map (\<lambda>s. (s, ''1y'', ''1d''))
               (filter (\<lambda>s. s \<notin> get_existing_tickers (Some sample_directory)) sample_universe)" and
    once: "distinct sample_universe \<longrightarrow> distinct (history_calls evs)" and
    files: "\<forall>s d p i. Some sample_directory = Some d \<and> bist_ticker s
               \<and> filename s p i \<in> set (listdir d)
               \<longrightarrow> s \<notin> fst ` set (history_calls evs)"
    by (elim exE conjE)
  from run have e: "snd (snd ?run) = evs"
    by simp
  from calls have 1: "history_calls evs
      = [(''THYAO.IS'', ''1y'', ''1d''), (''AKBNK.IS'', ''1y'', ''1d'')]"
    by (simp add: sample_inventory sample_universe_def)
  from files b f have 2: "''GARAN.IS'' \<notin> fst ` set (history_calls evs)"
    by blast
  from once d have 3: "distinct (history_calls evs)"
    by blast
  from z d b f 1 2 3 show ?thesis
    by (simp add: e sample_inventory)
qed

subsection \<open>C2: a failed download and the rest of the batch\<close>

text \<open>
  Claim C2, as the program has it. With a delay that is not negative,
  \<^verbatim>\<open>download_multiple_tickers\<close> returns, having sent one request for every ticker of its
  list, in order, whatever the earlier requests gave: an empty or failed answer does not
  end the batch. Only the tables of the requests that gave rows are handed to
  \<^verbatim>\<open>to_csv\<close>, and a file that is not handed to it is left as it was. The dictionary
  that is returned holds exactly the tickers of which some request gave rows that were
  then written well (in a data directory that exists): a ticker whose requests all came
  back empty or failed has no entry.
\<close>

theorem C2_batch_goes_on_after_a_failure:
  assumes "0 \<le> delay"
  shows "\<exists>results st' evs.
       download_multiple_tickers w st tickers period interval delay = (Inr results, st', evs)
     \<and> history_calls evs = map (\<lambda>t. (t, period, interval)) tickers
     \<and> to_csv_calls evs =
         map (\<lambda>(k, t). filename t period interval)
           (filter (\<lambda>(k, t). fetch_ok w k t period interval) (enumerate 0 tickers))
     \<and> (\<forall>f. f \<notin> set (to_csv_calls evs) \<longrightarrow> file_at st' f = file_at st f)
     \<and> fst ` set results =
         {t. \<exists>k. (k, t) \<in> set (enumerate 0 tickers)
               \<and> stored_ok w k t period interval \<and> path_exists st}
     \<and> (\<forall>t. (\<forall>k. (k, t) \<in> set (enumerate 0 tickers) \<longrightarrow> \<not> fetch_ok w k t period interval)
           \<longrightarrow> t \<notin> fst ` set results)"
proof -
  from assms obtain results st' evs where
    run: "download_multiple_tickers w st tickers period interval delay = (Inr results, st', evs)"
    by (rule download_multiple_returns)
  note tr = download_multiple_trace(1,2) [OF assms run]
  note rs = download_multiple_results(1,4) [OF assms run]
  have untouched: "\<forall>f. f \<notin> set (to_csv_calls evs) \<longrightarrow> file_at st' f = file_at st f"
    using rs(2) by blast
  have absent: "\<forall>t. (\<forall>k. (k, t) \<in> set (enumerate 0 tickers) \<longrightarrow> \<not> fetch_ok w k t period interval)
           \<longrightarrow> t \<notin> fst ` set results"
    unfolding rs(1) by (auto simp: stored_ok_def)
  from run tr untouched rs(1) absent show ?thesis
    by (intro exI conjI)
qed

theorem C2_batch_witness:
  "(0::rat) \<le> 1
   \<and> history_calls (snd (snd (download_multiple_tickers flaky_world (Some []) sample_universe
       ''1y'' ''1d'' 1)))
     = [(''THYAO.IS'', ''1y'', ''1d''), (''GARAN.IS'', ''1y'', ''1d''),
        (''AKBNK.IS'', ''1y'', ''1d'')]
   \<and> to_csv_calls (snd (snd (download_multiple_tickers flaky_world (Some []) sample_universe
       ''1y'' ''1d'' 1)))
     = [''AKBNK_1y_1d.csv'']
   \<and> file_at (fst (snd (download_multiple_tickers flaky_world (Some []) sample_universe
       ''1y'' ''1d'' 1))) ''GARAN_1y_1d.csv'' = None
   \<and> (\<exists>results. fst (download_multiple_tickers flaky_world (Some []) sample_universe
       ''1y'' ''1d'' 1) = Inr results \<and> ''GARAN.IS'' \<notin> fst ` set results)
   \<and> \<not> fetch_ok flaky_world 1 ''GARAN.IS'' ''1y'' ''1d''"
proof -
  let ?run = "download_multiple_tickers flaky_world (Some []) sample_universe ''1y'' ''1d'' 1"
  have z: "(0::rat) \<le> 1"
    by simp
  have en: "enumerate 0 sample_universe = [(0, ''THYAO.IS''), (1, ''GARAN.IS''), (2, ''AKBNK.IS'')]"
    by (simp add: sample_universe_def enumerate_eq_zip upt_rec)
  have f0: "\<not> fetch_ok flaky_world 0 ''THYAO.IS'' ''1y'' ''1d''"
    by (simp add: fetch_ok_def flaky_world_def df_empty_def)
  have f1: "\<not> fetch_ok flaky_world 1 ''GARAN.IS'' ''1y'' ''1d''"
    by (simp add: fetch_ok_def flaky_world_def)
  from f1 have f1': "\<not> fetch_ok flaky_world (Suc 0) ''GARAN.IS'' ''1y'' ''1d''"
    by simp
  have f2: "fetch_ok flaky_world 2 ''AKBNK.IS'' ''1y'' ''1d''"
    by (simp add: fetch_ok_def flaky_world_def df_empty_def sample_table_def df_columns_def)
  have fn: "filename ''AKBNK.IS'' ''1y'' ''1d'' = ''AKBNK_1y_1d.csv''"
    by (simp add: filename_def)
  from C2_batch_goes_on_after_a_failure
    [OF z, of flaky_world "Some []" sample_universe "''1y''" "''1d''"]
  obtain results st' evs where
    run: "?run = (Inr results, st', evs)" and
    calls: "history_calls evs = map (\<lambda>t. (t, ''1y'', ''1d'')) sample_universe" and
    writes: "to_csv_calls evs =
         map (\<lambda>(k, t). filename t ''1y'' ''1d'')
           (filter (\<lambda>(k, t). fetch_ok flaky_world k t ''1y'' ''1d'') (enumerate 0 sample_universe))" and
    untouched: "\<forall>f. f \<notin> set (to_csv_calls evs) \<longrightarrow> file_at st' f = file_at (Some []) f" and
    absent: "\<forall>t. (\<forall>k. (k, t) \<in> set (enumerate 0 sample_universe)
                 \<longrightarrow> \<not> fetch_ok flaky_world k t ''1y'' ''1d'')
           \<longrightarrow> t \<notin> fst ` set results"
    by (elim exE conjE)
  from calls have 1: "history_calls evs
     = [(''THYAO.IS'', ''1y'', ''1d''), (''GARAN.IS'', ''1y'', ''1d''),
        (''AKBNK.IS'', ''1y'', ''1d'')]"
    by (simp add: sample_universe_def)
  from writes have 2: "to_csv_calls evs = [''AKBNK_1y_1d.csv'']"
    by (simp add: en f0 f1' f2 fn)
  from untouched 2 have 3: "file_at st' ''GARAN_1y_1d.csv'' = None"
    by (simp add: file_at_def)
  from absent have 4: "''GARAN.IS'' \<notin> fst ` set results"
    by (simp add: en f1')
  from run 4 have 5: "\<exists>results. fst ?run = Inr results \<and> ''GARAN.IS'' \<notin> fst ` set results"
    by simp
  from run have "snd (snd ?run) = evs" "fst (snd ?run) = st'"
    by simp_all
  with z 1 2 3 5 f1 show ?thesis
    by simp
qed

text \<open>
  Claim C2 as stated fails in its last part. Of three tickers whose first answer is
  empty and whose second request fails, all three are requested, and the dictionary
  returned has the third ticker as its only key: \<^verbatim>\<open>results[ticker]\<close> is set under
  \<^verbatim>\<open>if data is not None\<close> only.
\<close>

theorem C2_mapping_counterexample:
  "history_calls (snd (snd (download_multiple_tickers flaky_world (Some []) sample_universe
       ''1y'' ''1d'' 1)))
     = [(''THYAO.IS'', ''1y'', ''1d''), (''GARAN.IS'', ''1y'', ''1d''),
        (''AKBNK.IS'', ''1y'', ''1d'')]
   \<and> fst (download_multiple_tickers flaky_world (Some []) sample_universe ''1y'' ''1d'' 1)
     = Inr [(''AKBNK.IS'', df_set_ticker sample_table ''AKBNK.IS'')]"
  by (simp add: flaky_run)

subsection \<open>C3: the rows of the summary report\<close>




subsection \<open>C4: the verdict of the validator\<close>

text \<open>
  Claim C4. \<^verbatim>\<open>validate_data\<close> raises on no table, and its verdict is false if and only
  if the table is empty, a required column (Open, High, Low, Close, Volume) is missing,
  or some close is a number that is not positive. Null cells do not enter the verdict:
  a table that passes with null cells is logged with a warning that counts them, and
  still passes.
\<close>

theorem C4_verdict_of_the_validator:
  "\<exists>verdict evs. validate_data data ticker = (Inr verdict, evs)
     \<and> (\<not> verdict \<longleftrightarrow>
          df_empty data
          \<or> (\<exists>col \<in> set required_columns. col \<notin> set (df_columns data))
          \<or> (\<exists>close x. df_getitem data ''Close'' = Inr close \<and> Some x \<in> set close \<and> x \<le> 0))
     \<and> (verdict \<and> isnull_sum data > 0 \<longrightarrow>
          evs = [Warn_missing_values (isnull_sum data) ticker, Info_validation_passed ticker])"
proof (cases "df_empty data")
  case True
  then show ?thesis by (auto simp: validate_data_empty)
next
  case nonempty: False
  let ?m = "filter (\<lambda>col. col \<notin> set (df_columns data)) required_columns"
  show ?thesis
  proof (cases "?m = []")
    case False
    then have "\<exists>col \<in> set required_columns. col \<notin> set (df_columns data)"
      by (simp add: filter_empty_conv)
    with validate_data_missing [OF nonempty refl False, of ticker] show ?thesis
      by auto
  next
    case True
    then have all: "\<forall>col \<in> set required_columns. col \<in> set (df_columns data)"
      by (simp add: filter_empty_conv)
    with close_is_required have "''Close'' \<in> set (df_columns data)" by blast
    then obtain close where c: "df_getitem data ''Close'' = Inr close"
      by (rule close_column_present)
    show ?thesis
    proof (cases "any_le_zero close")
      case True
      with validate_data_close [OF nonempty \<open>?m = []\<close> c True, of ticker] c show ?thesis
        by (auto simp: any_le_zero_iff)
    next
      case False
      with validate_data_passed [OF nonempty \<open>?m = []\<close> c False, of ticker] c nonempty all
      show ?thesis
        by (auto simp: any_le_zero_iff)
    qed
  qed
qed
theorem C4_verdict_witness:
  "\<not> df_empty (sample_with [Some 11, Some 12] True)
   \<and> set required_columns \<subseteq> set (df_columns (sample_with [Some 11, Some 12] True))
   \<and> isnull_sum (sample_with [Some 11, Some 12] True) = 1
   \<and> validate_data (sample_with [Some 11, Some 12] True) ''THYAO.IS''
       = (Inr True,
          [Warn_missing_values 1 ''THYAO.IS'', Info_validation_passed ''THYAO.IS''])
   \<and> fst (validate_data (sample_with [Some 11, Some (- 1)] True) ''THYAO.IS'') = Inr False"
proof -
  let ?good = "sample_with [Some 11, Some 12] True"
  let ?bad = "sample_with [Some 11, Some (- 1)] True"
  have e: "\<not> df_empty ?good"
    by (simp add: sample_with_def df_empty_def df_columns_def)
  have r: "set required_columns \<subseteq> set (df_columns ?good)"
    by (simp add: sample_with_def df_columns_def required_columns_def)
  have n: "isnull_sum ?good = 1"
    by (simp add: sample_with_def isnull_sum_def)
  have c: "df_getitem ?good ''Close'' = Inr [Some 11, Some 12]"
    by (simp add: sample_with_def df_getitem_def)
  have b: "df_getitem ?bad ''Close'' = Inr [Some 11, Some (- 1)]"
    by (simp add: sample_with_def df_getitem_def)
  from C4_verdict_of_the_validator [of ?good "''THYAO.IS''"] e r n c
  have 1: "validate_data ?good ''THYAO.IS''
      = (Inr True, [Warn_missing_values 1 ''THYAO.IS'', Info_validation_passed ''THYAO.IS''])"
    by auto
  from C4_verdict_of_the_validator [of ?bad "''THYAO.IS''"] b
  have 2: "fst (validate_data ?bad ''THYAO.IS'') = Inr False"
    by auto
  from e r n 1 2 show ?thesis by simp
qed

subsection \<open>C5: what the validator reports\<close>




subsection \<open>C6: tables are stored without the validator\<close>

text \<open>
  Claim C6, as the program has it. When the provider answers a request with a table that
  has rows, \<^verbatim>\<open>download_ticker_data\<close> hands the table (with its ticker column) to
  \<^verbatim>\<open>to_csv\<close> under the file name of the ticker, and logs no line of the validator:
  the validator is not called, so no verdict can keep the table from being stored. When
  the directory exists and the write ends well, the table is returned and the file holds
  it. The same holds of the whole batch (with a delay that is not negative): its trace
  has no line of the validator, and the files handed to \<^verbatim>\<open>to_csv\<close> are those of the
  requests that gave rows.
\<close>

theorem C6_stored_without_asking_the_validator:
  "(\<forall>fetched. history w k ticker period interval = Returns fetched \<and> \<not> df_empty fetched \<longrightarrow>
      (\<exists>data st1 evs.
         download_ticker_data w k st ticker period interval = (data, st1, evs)
         \<and> to_csv_calls evs = [filename ticker period interval]
         \<and> filter is_validation_event evs = []
         \<and> (\<forall>d. st = Some d \<and> csv_write w k (filename ticker period interval) = Write_ok \<longrightarrow>
               data = Some (df_set_ticker fetched ticker)
               \<and> st1 = Some (AList.update (filename ticker period interval)
                               (Complete (df_set_ticker fetched ticker)) d))))
   \<and> (\<forall>r st' evs.
        0 \<le> delay
        \<and> download_multiple_tickers w st tickers period interval delay = (r, st', evs) \<longrightarrow>
        filter is_validation_event evs = []
        \<and> to_csv_calls evs =
            map (\<lambda>(k, t). filename t period interval)
              (filter (\<lambda>(k, t). fetch_ok w k t period interval) (enumerate 0 tickers)))"
proof -
  have one: "\<exists>data st1 evs.
         download_ticker_data w k st ticker period interval = (data, st1, evs)
         \<and> to_csv_calls evs = [filename ticker period interval]
         \<and> filter is_validation_event evs = []
         \<and> (\<forall>d. st = Some d \<and> csv_write w k (filename ticker period interval) = Write_ok \<longrightarrow>
               data = Some (df_set_ticker fetched ticker)
               \<and> st1 = Some (AList.update (filename ticker period interval)
                               (Complete (df_set_ticker fetched ticker)) d))"
    if h: "history w k ticker period interval = Returns fetched" and ne: "\<not> df_empty fetched"
    for fetched
  proof -
    obtain data st1 evs where
      d: "download_ticker_data w k st ticker period interval = (data, st1, evs)"
      by (cases "download_ticker_data w k st ticker period interval")
    from h ne have ok: "fetch_ok w k ticker period interval"
      by (simp add: fetch_ok_def)
    from download_ticker_data_cases(2,3) [OF d] ok have
      t: "to_csv_calls evs = [filename ticker period interval]"
      and v: "filter is_validation_event evs = []"
      by simp_all
    have s: "\<forall>d. st = Some d \<and> csv_write w k (filename ticker period interval) = Write_ok \<longrightarrow>
               data = Some (df_set_ticker fetched ticker)
               \<and> st1 = Some (AList.update (filename ticker period interval)
                               (Complete (df_set_ticker fetched ticker)) d)"
      using d h ne by (auto simp: download_ticker_data_def Let_def to_csv_def)
    from d t v s show ?thesis by blast
  qed
  have batch: "filter is_validation_event evs = []
        \<and> to_csv_calls evs =
            map (\<lambda>(k, t). filename t period interval)
              (filter (\<lambda>(k, t). fetch_ok w k t period interval) (enumerate 0 tickers))"
    if "0 \<le> delay
        \<and> download_multiple_tickers w st tickers period interval delay = (r, st', evs)"
    for r st' evs
    using download_multiple_trace(2,3) [of delay w st tickers period interval r st' evs] that
    by simp
  from one batch show ?thesis by blast
qed

theorem C6_stored_witness:
  "history invalid_world 0 ''THYAO.IS'' ''1y'' ''1d'' = Returns (sample_with [Some 11, Some (- 1)] True)
   \<and> \<not> df_empty (sample_with [Some 11, Some (- 1)] True)
   \<and> fst (validate_data (df_set_ticker (sample_with [Some 11, Some (- 1)] True) ''THYAO.IS'')
         ''THYAO.IS'') = Inr False
   \<and> fst (download_ticker_data invalid_world 0 (Some []) ''THYAO.IS'' ''1y'' ''1d'')
       = Some (df_set_ticker (sample_with [Some 11, Some (- 1)] True) ''THYAO.IS'')
   \<and> fst (snd (download_ticker_data invalid_world 0 (Some []) ''THYAO.IS'' ''1y'' ''1d''))
       = Some [(''THYAO_1y_1d.csv'',
                Complete (df_set_ticker (sample_with [Some 11, Some (- 1)] True) ''THYAO.IS''))]
   \<and> filter is_validation_event
        (snd (snd (download_ticker_data invalid_world 0 (Some []) ''THYAO.IS'' ''1y'' ''1d''))) = []
   \<and> filter is_validation_event
        (snd (snd (download_multiple_tickers invalid_world (Some []) [''THYAO.IS'']
           ''1y'' ''1d'' 1))) = []"
proof -
  let ?bad = "sample_with [Some 11, Some (- 1)] True"
  let ?run = "download_multiple_tickers invalid_world (Some []) [''THYAO.IS''] ''1y'' ''1d'' 1"
  note c = C6_stored_without_asking_the_validator
    [where w = invalid_world and k = 0 and ticker = "''THYAO.IS''" and period = "''1y''"
       and interval = "''1d''" and st = "Some []" and tickers = "[''THYAO.IS'']" and delay = 1]
  have h: "history invalid_world 0 ''THYAO.IS'' ''1y'' ''1d'' = Returns ?bad"
    by (simp add: invalid_world_def)
  have ne: "\<not> df_empty ?bad"
    by (simp add: sample_with_def df_empty_def df_columns_def)
  have wr: "csv_write invalid_world 0 (filename ''THYAO.IS'' ''1y'' ''1d'') = Write_ok"
    by (simp add: invalid_world_def)
  have fn: "filename ''THYAO.IS'' ''1y'' ''1d'' = ''THYAO_1y_1d.csv''"
    by (simp add: filename_def)
  have v: "fst (validate_data (df_set_ticker ?bad ''THYAO.IS'') ''THYAO.IS'') = Inr False"
    by (simp add: validate_data_def df_set_ticker_def sample_with_def df_empty_def
        df_columns_def required_columns_def df_getitem_def any_le_zero_def Let_def)
  from c [THEN conjunct1, rule_format, OF conjI [OF h ne]] obtain data st1 evs where
    d: "download_ticker_data invalid_world 0 (Some []) ''THYAO.IS'' ''1y'' ''1d'' = (data, st1, evs)"
    and e: "filter is_validation_event evs = []"
    and s: "\<forall>d. Some [] = Some d
              \<and> csv_write invalid_world 0 (filename ''THYAO.IS'' ''1y'' ''1d'') = Write_ok \<longrightarrow>
               data = Some (df_set_ticker ?bad ''THYAO.IS'')
               \<and> st1 = Some (AList.update (filename ''THYAO.IS'' ''1y'' ''1d'')
                               (Complete (df_set_ticker ?bad ''THYAO.IS'')) d)"
    by (elim exE conjE)
  from s [rule_format, OF conjI [OF refl wr]] have "data = Some (df_set_ticker ?bad ''THYAO.IS'')"
    and "st1 = Some [(''THYAO_1y_1d.csv'', Complete (df_set_ticker ?bad ''THYAO.IS''))]"
    by (simp_all add: fn)
  with d e have 1: "fst (download_ticker_data invalid_world 0 (Some []) ''THYAO.IS'' ''1y'' ''1d'')
       = Some (df_set_ticker ?bad ''THYAO.IS'')"
    and 2: "fst (snd (download_ticker_data invalid_world 0 (Some []) ''THYAO.IS'' ''1y'' ''1d''))
       = Some [(''THYAO_1y_1d.csv'', Complete (df_set_ticker ?bad ''THYAO.IS''))]"
    and 3: "filter is_validation_event
        (snd (snd (download_ticker_data invalid_world 0 (Some []) ''THYAO.IS'' ''1y'' ''1d''))) = []"
    by simp_all
  have z: "(0::rat) \<le> 1"
    by simp
  from c [THEN conjunct2, rule_format, OF conjI [OF z triple_collapse [of ?run]]]
  have 4: "filter is_validation_event (snd (snd ?run)) = []"
    by (rule conjunct1)
  from h ne v 1 2 3 4 show ?thesis by (intro conjI)
qed

text \<open>
  Claim C6 as stated fails in its first part. A table without its volume column is
  fetched, stored and returned; the trace of the batch is the six lines of the download,
  none of them from the validator, whose verdict on that table would be false. The
  summary report that the callers ask for next ends with \<^verbatim>\<open>KeyError\<close> before it
  reaches the validator, so the failed validation is recorded nowhere.
\<close>

theorem C6_validator_counterexample:
  "download_multiple_tickers no_volume_world (Some []) [''THYAO.IS''] ''1y'' ''1d'' 1
     = (Inr [(''THYAO.IS'', df_set_ticker (sample_with [Some 11, Some 12] False) ''THYAO.IS'')],
        Some [(''THYAO_1y_1d.csv'',
               Complete (df_set_ticker (sample_with [Some 11, Some 12] False) ''THYAO.IS''))],
        [Info_processing 1 1 ''THYAO.IS'', Info_downloading ''THYAO.IS'',
         Call_history ''THYAO.IS'' ''1y'' ''1d'', Call_to_csv ''THYAO_1y_1d.csv'',
         Info_downloaded 2 ''THYAO.IS'', Info_saved ''THYAO_1y_1d.csv''])
   \<and> validate_data (df_set_ticker (sample_with [Some 11, Some 12] False) ''THYAO.IS'')
       ''THYAO.IS'' = (Inr False, [Warn_missing_columns ''THYAO.IS'' [''Volume'']])
   \<and> generate_summary_report no_volume_world
       [(''THYAO.IS'', df_set_ticker (sample_with [Some 11, Some 12] False) ''THYAO.IS'')]
     = (Inl (KeyError ''Volume''), [])"
proof -
  have 1: "download_multiple_tickers no_volume_world (Some []) [''THYAO.IS''] ''1y'' ''1d'' 1
     = (Inr [(''THYAO.IS'', df_set_ticker (sample_with [Some 11, Some 12] False) ''THYAO.IS'')],
        Some [(''THYAO_1y_1d.csv'',
               Complete (df_set_ticker (sample_with [Some 11, Some 12] False) ''THYAO.IS''))],
        [Info_processing 1 1 ''THYAO.IS'', Info_downloading ''THYAO.IS'',
         Call_history ''THYAO.IS'' ''1y'' ''1d'', Call_to_csv ''THYAO_1y_1d.csv'',
         Info_downloaded 2 ''THYAO.IS'', Info_saved ''THYAO_1y_1d.csv''])"
    by (simp add: download_multiple_tickers_def enumerate_eq_zip upt_rec
        download_ticker_data_def no_volume_world_def df_empty_def df_columns_def
        sample_with_def df_set_ticker_def filename_def to_csv_def Let_def)
  have 2: "validate_data (df_set_ticker (sample_with [Some 11, Some 12] False) ''THYAO.IS'')
       ''THYAO.IS'' = (Inr False, [Warn_missing_columns ''THYAO.IS'' [''Volume'']])"
    by (simp add: validate_data_def df_set_ticker_def sample_with_def df_empty_def
        df_columns_def required_columns_def Let_def)
  have 3: "generate_summary_report no_volume_world
       [(''THYAO.IS'', df_set_ticker (sample_with [Some 11, Some 12] False) ''THYAO.IS'')]
     = (Inl (KeyError ''Volume''), [])"
    by (simp add: generate_summary_report_def df_set_ticker_def sample_with_def df_empty_def
        df_columns_def df_getitem_def index_min_def index_max_def)
  from 1 2 3 show ?thesis by (intro conjI)
qed

subsection \<open>C7: what the inventory takes for a symbol\<close>

text \<open>
  Claim C7, as the program has it. The inventory is the set of the names
  \<open>prefix @ ''.IS''\<close>, where \<open>prefix\<close> is the part before the first underscore of a file
  name of the directory that ends in \<^verbatim>\<open>.csv\<close>; the progress checker computes the same
  set. A file whose name does not end in \<^verbatim>\<open>.csv\<close> is skipped. Every other file gives
  one symbol, whatever it holds: the name is split, not searched. The file that the
  downloader writes for a ticker of the exchange's shape gives that ticker.
\<close>

theorem C7_inventory_reads_every_csv_name:
  "get_existing_tickers (Some d) =
     (\<lambda>f. split_first CHR ''_'' f @ ''.IS'') ` {f \<in> set (listdir d). endswith f ''.csv''}
   \<and> downloaded_tickers (Some d) = get_existing_tickers (Some d)
   \<and> (\<not> endswith f ''.csv'' \<longrightarrow>
        get_existing_tickers (Some ((f, c) # d)) = get_existing_tickers (Some d))
   \<and> (bist_ticker s \<and> filename s p i \<in> set (listdir d) \<longrightarrow> s \<in> get_existing_tickers (Some d))
   \<and> (bist_ticker s \<longrightarrow> get_existing_tickers (Some [(filename s p i, c')]) = {s})"
proof (intro conjI impI)
  show "get_existing_tickers (Some d) =
     (\<lambda>f. split_first CHR ''_'' f @ ''.IS'') ` {f \<in> set (listdir d). endswith f ''.csv''}"
    by (rule inventory_closed_form)
  show "downloaded_tickers (Some d) = get_existing_tickers (Some d)"
    by (rule downloaded_tickers_eq)
  show "get_existing_tickers (Some ((f, c) # d)) = get_existing_tickers (Some d)"
    if "\<not> endswith f ''.csv''"
    using that by (simp add: get_existing_tickers_def listdir_def)
  show "s \<in> get_existing_tickers (Some d)"
    if "bist_ticker s \<and> filename s p i \<in> set (listdir d)"
    using that bist_ticker_in_inventory by blast
  show "get_existing_tickers (Some [(filename s p i, c')]) = {s}" if "bist_ticker s"
    using that by (rule bist_ticker_alone)
qed

theorem C7_inventory_witness:
  "\<not> endswith ''notes.txt'' ''.csv''
   \<and> bist_ticker ''GARAN.IS''
   \<and> filename ''GARAN.IS'' ''1y'' ''1d'' \<in> set (listdir sample_directory)
   \<and> get_existing_tickers (Some [(''GARAN_1y_1d.csv'', Complete sample_table)]) = {''GARAN.IS''}
   \<and> get_existing_tickers
        (Some [(''notes.txt'', Foreign), (''GARAN_1y_1d.csv'', Complete sample_table)])
      = {''GARAN.IS''}
   \<and> ''GARAN.IS'' \<in> get_existing_tickers (Some sample_directory)"
proof -
  have n: "\<not> endswith ''notes.txt'' ''.csv''"
    by (simp add: endswith_def)
  have b: "bist_ticker ''GARAN.IS''"
    by (simp add: bist_ticker_def endswith_def)
  have fn: "filename ''GARAN.IS'' ''1y'' ''1d'' = ''GARAN_1y_1d.csv''"
    by (simp add: filename_def)
  have f: "filename ''GARAN.IS'' ''1y'' ''1d'' \<in> set (listdir sample_directory)"
    by (simp add: fn sample_directory_def listdir_def)
  note c = C7_inventory_reads_every_csv_name
    [of "[(''GARAN_1y_1d.csv'', Complete sample_table)]" "''notes.txt''" Foreign
      "''GARAN.IS''" "''1y''" "''1d''" "Complete sample_table"]
  from c [THEN conjunct2, THEN conjunct2, THEN conjunct2, THEN conjunct2, rule_format, OF b]
  have 1:
    "get_existing_tickers (Some [(''GARAN_1y_1d.csv'', Complete sample_table)]) = {''GARAN.IS''}"
    by (simp add: fn)
  from c [THEN conjunct2, THEN conjunct2, THEN conjunct1, rule_format, OF n] 1
  have 2: "get_existing_tickers
        (Some [(''notes.txt'', Foreign), (''GARAN_1y_1d.csv'', Complete sample_table)])
      = {''GARAN.IS''}"
    by simp
  from C7_inventory_reads_every_csv_name
    [of sample_directory "''notes.txt''" Foreign "''GARAN.IS''" "''1y''" "''1d''" Foreign,
      THEN conjunct2, THEN conjunct2, THEN conjunct2, THEN conjunct1, rule_format,
      OF conjI [OF b f]]
  have 3: "''GARAN.IS'' \<in> get_existing_tickers (Some sample_directory)" .
  from n b f 1 2 3 show ?thesis by (intro conjI)
qed

text \<open>
  Claim C7 as stated fails. A backup copy and a file of notes, neither of them a name
  that the downloader can write (such a name has two underscores at least), are both
  taken for symbols, the first for a ticker of the exchange.
\<close>

theorem C7_unrelated_file_counterexample:
  "get_existing_tickers (Some [(''THYAO_backup.csv'', Foreign), (''notes.csv'', Foreign)])
     = {''THYAO.IS'', ''notes.csv.IS''}
   \<and> \<not> (\<exists>t p i. filename t p i = ''THYAO_backup.csv'')
   \<and> \<not> (\<exists>t p i. filename t p i = ''notes.csv'')"
proof -
  have 1: "get_existing_tickers (Some [(''THYAO_backup.csv'', Foreign), (''notes.csv'', Foreign)])
     = {''THYAO.IS'', ''notes.csv.IS''}"
    by (simp add: get_existing_tickers_def listdir_def endswith_def split_first_def
        insert_commute)
  have 2: "\<not> (\<exists>t p i. filename t p i = ''THYAO_backup.csv'')"
  proof
    assume "\<exists>t p i. filename t p i = ''THYAO_backup.csv''"
    then obtain t p i where "filename t p i = ''THYAO_backup.csv''" by blast
    with filename_underscores [of t p i] show False by simp
  qed
  have 3: "\<not> (\<exists>t p i. filename t p i = ''notes.csv'')"
  proof
    assume "\<exists>t p i. filename t p i = ''notes.csv''"
    then obtain t p i where "filename t p i = ''notes.csv''" by blast
    with filename_underscores [of t p i] show False by simp
  qed
  from 1 2 3 show ?thesis by (intro conjI)
qed

subsection \<open>C8: what a failed write leaves behind\<close>

text \<open>
  Claim C8, as the program has it. \<^verbatim>\<open>download_ticker_data\<close> writes to one place only,
  the final file name of the ticker; every other file of the directory is left as it
  was. A table that is returned is complete in its file. A write that fails returns no
  table, so it costs that ticker's attempt only; when it fails before the file is opened
  the directory is unchanged, and when it fails partway the incomplete file stays under
  the final name. Any file under that name, complete or not, puts a ticker of the
  exchange's shape in the next inventory.
\<close>

theorem C8_write_goes_straight_to_the_final_name:
  assumes "download_ticker_data w k st ticker period interval = (data, st1, evs)"
  shows "set (to_csv_calls evs) \<subseteq> {filename ticker period interval}
     \<and> (\<forall>f. f \<noteq> filename ticker period interval \<longrightarrow> file_at st1 f = file_at st f)
     \<and> (\<forall>table. data = Some table \<longrightarrow>
           file_at st1 (filename ticker period interval) = Some (Complete table))
     \<and> (fetch_ok w k ticker period interval
          \<and> csv_write w k (filename ticker period interval) \<noteq> Write_ok \<longrightarrow> data = None)
     \<and> (fetch_ok w k ticker period interval \<and> path_exists st
          \<and> csv_write w k (filename ticker period interval) = Write_fails_partway \<longrightarrow>
          file_at st1 (filename ticker period interval) = Some Partial)
     \<and> (fetch_ok w k ticker period interval
          \<and> csv_write w k (filename ticker period interval) = Write_fails_unopened \<longrightarrow>
          st1 = st)
     \<and> (bist_ticker ticker \<and> file_at st1 (filename ticker period interval) \<noteq> None \<longrightarrow>
          ticker \<in> get_existing_tickers st1)"
proof (intro conjI allI impI)
  note calls = download_ticker_data_cases(2) [OF assms]
  show "set (to_csv_calls evs) \<subseteq> {filename ticker period interval}"
    by (auto simp: calls split: if_splits)
  show "file_at st1 f = file_at st f" if "f \<noteq> filename ticker period interval" for f
  proof -
    from that have "f \<notin> set (to_csv_calls evs)" by (auto simp: calls split: if_splits)
    then show ?thesis by (rule download_ticker_data_storage(1) [OF assms])
  qed
  show "file_at st1 (filename ticker period interval) = Some (Complete table)"
    if "data = Some table" for table
    using that by (rule download_ticker_data_write(1) [OF assms])
  show "data = None"
    if "fetch_ok w k ticker period interval
          \<and> csv_write w k (filename ticker period interval) \<noteq> Write_ok"
    using that download_ticker_data_cases(4) [OF assms] by (auto simp: stored_ok_def)
  show "file_at st1 (filename ticker period interval) = Some Partial"
    if "fetch_ok w k ticker period interval \<and> path_exists st
          \<and> csv_write w k (filename ticker period interval) = Write_fails_partway"
    using that download_ticker_data_write(2) [OF assms] by blast
  show "st1 = st"
    if "fetch_ok w k ticker period interval
          \<and> csv_write w k (filename ticker period interval) = Write_fails_unopened"
    using that download_ticker_data_write(3) [OF assms] by blast
  show "ticker \<in> get_existing_tickers st1"
    if h: "bist_ticker ticker \<and> file_at st1 (filename ticker period interval) \<noteq> None"
  proof -
    from h have b: "bist_ticker ticker"
      and f: "file_at st1 (filename ticker period interval) \<noteq> None"
      by simp_all
    from f obtain d where d: "st1 = Some d" "filename ticker period interval \<in> set (listdir d)"
      by (rule file_in_listing)
    from bist_ticker_in_inventory [OF b d(2)] d(1) show ?thesis by simp
  qed
qed

theorem C8_write_witness:
  "fetch_ok partial_write_world 0 ''THYAO.IS'' ''1y'' ''1d''
   \<and> path_exists (Some sample_directory)
   \<and> csv_write partial_write_world 0 (filename ''THYAO.IS'' ''1y'' ''1d'') = Write_fails_partway
   \<and> bist_ticker ''THYAO.IS''
   \<and> fst (download_ticker_data partial_write_world 0 (Some sample_directory)
        ''THYAO.IS'' ''1y'' ''1d'') = None
   \<and> file_at (fst (snd (download_ticker_data partial_write_world 0 (Some sample_directory)
        ''THYAO.IS'' ''1y'' ''1d''))) ''THYAO_1y_1d.csv'' = Some Partial
   \<and> file_at (fst (snd (download_ticker_data partial_write_world 0 (Some sample_directory)
        ''THYAO.IS'' ''1y'' ''1d''))) ''GARAN_1y_1d.csv'' = Some (Complete sample_table)
   \<and> ''THYAO.IS'' \<in> get_existing_tickers
        (fst (snd (download_ticker_data partial_write_world 0 (Some sample_directory)
           ''THYAO.IS'' ''1y'' ''1d'')))
   \<and> fst (download_ticker_data steady_world 0 (Some sample_directory)
        ''THYAO.IS'' ''1y'' ''1d'') = Some (df_set_ticker sample_table ''THYAO.IS'')
   \<and> file_at (fst (snd (download_ticker_data steady_world 0 (Some sample_directory)
        ''THYAO.IS'' ''1y'' ''1d''))) ''THYAO_1y_1d.csv''
      = Some (Complete (df_set_ticker sample_table ''THYAO.IS''))"
proof -
  let ?good = "download_ticker_data steady_world 0 (Some sample_directory)
     ''THYAO.IS'' ''1y'' ''1d''"
  have 5: "fst ?good = Some (df_set_ticker sample_table ''THYAO.IS'')"
    by (simp add: download_ticker_data_def steady_world_def df_empty_def df_columns_def
        sample_table_def to_csv_def Let_def)
  from C8_write_goes_straight_to_the_final_name [OF triple_collapse [of ?good],
      THEN conjunct2, THEN conjunct2, THEN conjunct1, rule_format, OF 5]
  have 6: "file_at (fst (snd ?good)) ''THYAO_1y_1d.csv''
      = Some (Complete (df_set_ticker sample_table ''THYAO.IS''))"
    by (simp add: filename_def)
  let ?call = "download_ticker_data partial_write_world 0 (Some sample_directory)
     ''THYAO.IS'' ''1y'' ''1d''"
  note c = C8_write_goes_straight_to_the_final_name [OF triple_collapse [of ?call]]
  have ok: "fetch_ok partial_write_world 0 ''THYAO.IS'' ''1y'' ''1d''"
    by (simp add: fetch_ok_def partial_write_world_def sample_table_def df_empty_def
        df_columns_def)
  have ex: "path_exists (Some sample_directory)"
    by (simp add: path_exists_def)
  have fn: "filename ''THYAO.IS'' ''1y'' ''1d'' = ''THYAO_1y_1d.csv''"
    by (simp add: filename_def)
  have wr: "csv_write partial_write_world 0 (filename ''THYAO.IS'' ''1y'' ''1d'')
      = Write_fails_partway"
    by (simp add: partial_write_world_def)
  have b: "bist_ticker ''THYAO.IS''"
    by (simp add: bist_ticker_def endswith_def)
  from c ok wr have 1: "fst ?call = None"
    by simp
  from c ok ex wr have 2: "file_at (fst (snd ?call)) ''THYAO_1y_1d.csv'' = Some Partial"
    by (simp add: fn)
  from c have "file_at (fst (snd ?call)) ''GARAN_1y_1d.csv''
      = file_at (Some sample_directory) ''GARAN_1y_1d.csv''"
    by (simp add: fn)
  then have 3: "file_at (fst (snd ?call)) ''GARAN_1y_1d.csv'' = Some (Complete sample_table)"
    by (simp add: file_at_def sample_directory_def)
  from c b 2 have 4: "''THYAO.IS'' \<in> get_existing_tickers (fst (snd ?call))"
    by (simp add: fn)
  from ok ex wr b 1 2 3 4 5 6 show ?thesis by (intro conjI)
qed

text \<open>
  Claim C8 as stated fails. A write that stops partway leaves the incomplete file of the
  ticker in the directory; the next scan takes the ticker for stored, and the next run
  does not download it.
\<close>

theorem C8_partial_file_counterexample:
  "download_ticker_data partial_write_world 0 (Some []) ''THYAO.IS'' ''1y'' ''1d''
     = (None, Some [(''THYAO_1y_1d.csv'', Partial)],
        [Info_downloading ''THYAO.IS'', Call_history ''THYAO.IS'' ''1y'' ''1d'',
         Call_to_csv ''THYAO_1y_1d.csv'', Error_downloading ''THYAO.IS'' OSError])
   \<and> get_existing_tickers (Some [(''THYAO_1y_1d.csv'', Partial)]) = {''THYAO.IS''}
   \<and> get_new_tickers_to_download [''THYAO.IS''] (Some [(''THYAO_1y_1d.csv'', Partial)]) = []"
proof -
  have 1: "download_ticker_data partial_write_world 0 (Some []) ''THYAO.IS'' ''1y'' ''1d''
     = (None, Some [(''THYAO_1y_1d.csv'', Partial)],
        [Info_downloading ''THYAO.IS'', Call_history ''THYAO.IS'' ''1y'' ''1d'',
         Call_to_csv ''THYAO_1y_1d.csv'', Error_downloading ''THYAO.IS'' OSError])"
    by (simp add: download_ticker_data_def partial_write_world_def df_empty_def df_columns_def
        sample_table_def df_set_ticker_def filename_def to_csv_def Let_def)
  have 2: "get_existing_tickers (Some [(''THYAO_1y_1d.csv'', Partial)]) = {''THYAO.IS''}"
    by (simp add: get_existing_tickers_def listdir_def endswith_def split_first_def)
  have 3: "get_new_tickers_to_download [''THYAO.IS''] (Some [(''THYAO_1y_1d.csv'', Partial)]) = []"
    by (simp add: get_new_tickers_eq 2)
  from 1 2 3 show ?thesis by (intro conjI)
qed

subsection \<open>C10: a data directory that does not exist\<close>

text \<open>
  Claim C10. When the data directory does not exist the inventory is the empty set (the
  scan guards the listing with \<^verbatim>\<open>os.path.exists\<close> and has no failing path), in the
  downloader's scan and in the progress checker's alike. The missing symbols of such a
  run are the whole universe, and with a delay that is not negative the batch requests
  every one of them.
\<close>

theorem C10_no_directory_means_whole_universe:
  "get_existing_tickers None = {}
   \<and> downloaded_tickers None = {}
   \<and> get_new_tickers_to_download universe None = universe
   \<and> missing_tickers universe None = set universe
   \<and> (0 \<le> delay \<longrightarrow>
        history_calls (snd (snd (download_multiple_tickers w (ensure_directories None)
           (get_new_tickers_to_download universe None) period interval delay)))
         = map (\<lambda>s. (s, period, interval)) universe)"
proof -
  let ?run = "download_multiple_tickers w (ensure_directories None)
         (get_new_tickers_to_download universe None) period interval delay"
  have e: "get_existing_tickers None = {}"
    by (simp add: get_existing_tickers_def)
  have n: "get_new_tickers_to_download universe None = universe"
    by (simp add: get_new_tickers_eq e)
  have c: "downloaded_tickers None = {}"
    by (simp add: downloaded_tickers_def existing_files_def)
  have "history_calls (snd (snd ?run)) = map (\<lambda>s. (s, period, interval)) universe"
    if "0 \<le> delay"
    using download_multiple_trace(1) [OF that triple_collapse [of ?run]] by (simp add: n)
  with e n c show ?thesis
    by (simp add: missing_tickers_def)
qed

theorem C10_no_directory_witness:
  "(0::rat) \<le> 1
   \<and> get_new_tickers_to_download sample_universe None = sample_universe
   \<and> history_calls (snd (snd (download_multiple_tickers steady_world (ensure_directories None)
         (get_new_tickers_to_download sample_universe None) ''1y'' ''1d'' 1)))
       = [(''THYAO.IS'', ''1y'', ''1d''), (''GARAN.IS'', ''1y'', ''1d''),
          (''AKBNK.IS'', ''1y'', ''1d'')]"
proof -
  note c = C10_no_directory_means_whole_universe
    [of sample_universe 1 steady_world "''1y''" "''1d''"]
  have z: "(0::rat) \<le> 1"
    by simp
  from c have 1: "get_new_tickers_to_download sample_universe None = sample_universe"
    by (rule conjunct2 [THEN conjunct2, THEN conjunct1])
  from c [THEN conjunct2, THEN conjunct2, THEN conjunct2, THEN conjunct2, rule_format, OF z]
  have 2: "history_calls (snd (snd (download_multiple_tickers steady_world
         (ensure_directories None) (get_new_tickers_to_download sample_universe None)
         ''1y'' ''1d'' 1)))
       = [(''THYAO.IS'', ''1y'', ''1d''), (''GARAN.IS'', ''1y'', ''1d''),
          (''AKBNK.IS'', ''1y'', ''1d'')]"
    by (simp add: sample_universe_def)
  from z 1 2 show ?thesis by (intro conjI)
qed

end
